theory Spec2Isabelle
  imports Complex_Main "HOL-Library.Log_Nat" "HOL-Library.Sublist" "HOL-Library.Multiset"
begin

text \<open>
  A shallow embedding of the scoring and list logic of the hiring manager application: the
  overall score (\<open>calculateOverallScore\<close>), the listing of candidates with its filters and
  its client-side sort (\<open>getCandidates\<close>, and \<open>loadCandidates\<close> of the home page), the
  validation step of the two document analysis routes, and the upload of a candidate's
  document (\<open>uploadCandidateDocument\<close>). The definitions come first, the properties after
  them.
\<close>

section \<open>Numbers and errors\<close>

text \<open>
  The program's \<open>number\<close> values that records hold are finite; they are modelled as exact
  rationals. Every arithmetic operation of the source takes the rounding of the number
  format as a parameter \<open>rnd\<close>, applied to the exact result: the identity is exact
  arithmetic (the reals of the specification), \<open>binary64\<close> below is the IEEE 754 double
  format of the language. Exceptions are values of the type \<open>error\<close>; \<open>NonFinite\<close> marks the
  one place where an operation would leave the finite numbers (a division by zero, which
  the language answers with \<open>NaN\<close> or an infinity rather than with a finite number).
\<close>

datatype error = TypeError string | Error string | NonFinite

definition divide_checked :: "(rat \<Rightarrow> rat) \<Rightarrow> rat \<Rightarrow> rat \<Rightarrow> error + rat" where
  "divide_checked rnd a b = (if b = 0 then Inl NonFinite else Inr (rnd (a / b)))"

subsection \<open>IEEE 754 binary64 rounding\<close>

text \<open>
  Round to nearest, ties to even, with a 53-bit significand and the subnormal spacing below
  \<open>2 ^ -1022\<close>. Overflow to an infinity (magnitudes from \<open>2 ^ 1024\<close>) is outside this finite
  model.
\<close>

definition round_ties_even :: "rat \<Rightarrow> int" where
  "round_ties_even y =
     (let n = \<lfloor>y\<rfloor>; f = y - of_int n in
      if f < 1 / 2 then n else if 1 / 2 < f then n + 1 else if even n then n else n + 1)"

definition pow2 :: "int \<Rightarrow> rat" where
  "pow2 e = (if 0 \<le> e then 2 ^ nat e else 1 / 2 ^ nat (- e))"

definition exponent :: "rat \<Rightarrow> int" where
  "exponent x =
     (case quotient_of \<bar>x\<bar> of (p, q) \<Rightarrow>
        (let d = bitlen p - bitlen q in if pow2 d \<le> \<bar>x\<bar> then d else d - 1))"

definition binary64 :: "rat \<Rightarrow> rat" where
  "binary64 x =
     (if x = 0 then 0
      else (let u = pow2 (max (exponent x) (- 1022) - 52) in of_int (round_ties_even (x / u)) * u))"

text \<open>Exact arithmetic: no rounding.\<close>

definition exact :: "rat \<Rightarrow> rat" where
  "exact x = x"

section \<open>Overall score\<close>

text \<open>
  \<open>CategoryScores\<close> and \<open>CategoryWeights\<close> are objects with string keys and number values:
  association lists, in the order in which \<open>for ... in\<close> enumerates the keys. A property
  read \<open>weights[category]\<close> is \<open>map_of weights category\<close>.
\<close>

type_synonym CategoryScores = "(string \<times> rat) list"
type_synonym CategoryWeights = "(string \<times> rat) list"

definition DEFAULT_WEIGHTS :: "(rat \<Rightarrow> rat) \<Rightarrow> CategoryWeights" where
  "DEFAULT_WEIGHTS rnd =
     [(''technicalSkills'', rnd (4 / 10)),
      (''communicationSkills'', rnd (25 / 100)),
      (''experience'', rnd (25 / 100)),
      (''culturalFit'', rnd (1 / 10))]"

text \<open>
  The loop of \<open>calculateOverallScore\<close>: the pair is \<open>(weightedScore, totalWeight)\<close>. The
  test \<open>if (weights[category])\<close> holds for a weight that is present and not zero.
\<close>

fun score_loop :: "(rat \<Rightarrow> rat) \<Rightarrow> CategoryWeights \<Rightarrow> CategoryScores \<Rightarrow> rat \<times> rat \<Rightarrow> rat \<times> rat" where
  "score_loop rnd weights [] acc = acc"
| "score_loop rnd weights ((category, score) # rest) (weightedScore, totalWeight) =
     (case map_of weights category of
        None \<Rightarrow> score_loop rnd weights rest (weightedScore, totalWeight)
      | Some w \<Rightarrow>
          if w \<noteq> 0
          then score_loop rnd weights rest
                 (rnd (weightedScore + rnd (score * w)), rnd (totalWeight + w))
          else score_loop rnd weights rest (weightedScore, totalWeight))"

text \<open>
  \<open>x.toFixed(1)\<close> takes the sign off, chooses the integer \<open>n\<close> for which \<open>n / 10 - x\<close> is
  closest to zero, the larger \<open>n\<close> of two, and prints \<open>n\<close> with a point before its last
  digit. The string is modelled by the signed number of tenths. (From \<open>10 ^ 21\<close> on the
  method prints the number itself; a double that large is an integer, so the value read
  back is the same as the one below.) \<open>parseFloat\<close> reads the decimal back as a number.
\<close>

definition toFixed1 :: "rat \<Rightarrow> int" where
  "toFixed1 x = (if x < 0 then - \<lfloor>(- x) * 10 + 1 / 2\<rfloor> else \<lfloor>x * 10 + 1 / 2\<rfloor>)"

definition parseFloat1 :: "(rat \<Rightarrow> rat) \<Rightarrow> int \<Rightarrow> rat" where
  "parseFloat1 rnd n = rnd (of_int n / 10)"

definition calculateOverallScore ::
  "(rat \<Rightarrow> rat) \<Rightarrow> CategoryScores \<Rightarrow> CategoryWeights \<Rightarrow> error + rat" where
  "calculateOverallScore rnd scores weights =
     (case score_loop rnd weights scores (0, 0) of
        (weightedScore, totalWeight) \<Rightarrow>
          if totalWeight = 0 then Inr 0
          else (case divide_checked rnd weightedScore totalWeight of
                  Inl e \<Rightarrow> Inl e
                | Inr q \<Rightarrow> Inr (parseFloat1 rnd (toFixed1 q))))"

subsection \<open>The specification's reading of the score\<close>

text \<open>
  Rounding to one decimal digit, half away from zero, as a function and as the property
  that determines it: a multiple of a tenth nearest to \<open>x\<close>, of two the one farther from
  zero.
\<close>

definition round_one_decimal :: "rat \<Rightarrow> rat" where
  "round_one_decimal x = sgn x * of_int \<lfloor>\<bar>x\<bar> * 10 + 1 / 2\<rfloor> / 10"

definition rounds_half_away :: "rat \<Rightarrow> rat \<Rightarrow> bool" where
  "rounds_half_away x r \<longleftrightarrow>
     (\<exists>n::int. r = of_int n / 10) \<and>
     (\<bar>r - x\<bar> < 1 / 20 \<or> (\<bar>r - x\<bar> = 1 / 20 \<and> \<bar>x\<bar> < \<bar>r\<bar>))"

text \<open>The categories that have a weight, and the two sums over them.\<close>

definition applied_keys :: "CategoryScores \<Rightarrow> CategoryWeights \<Rightarrow> string set" where
  "applied_keys scores weights = fst ` set scores \<inter> fst ` set weights"

definition weight_total :: "CategoryScores \<Rightarrow> CategoryWeights \<Rightarrow> rat" where
  "weight_total scores weights =
     (\<Sum>k \<in> applied_keys scores weights. the (map_of weights k))"

definition weighted_sum :: "CategoryScores \<Rightarrow> CategoryWeights \<Rightarrow> rat" where
  "weighted_sum scores weights =
     (\<Sum>k \<in> applied_keys scores weights. the (map_of scores k) * the (map_of weights k))"



text \<open>The specification's worked example: scores 8, 6, 7 and 9 under the default weights.\<close>

definition example_scores :: CategoryScores where
  "example_scores =
     [(''technicalSkills'', 8), (''communicationSkills'', 6), (''experience'', 7),
      (''culturalFit'', 9)]"

section \<open>Values of the language\<close>

text \<open>
  A number of the language is finite, an infinity or \<open>NaN\<close>. A value is a primitive, a
  function (kept by its source text), an array, or an object: the list of its own
  properties in insertion order.
\<close>

datatype jsnum = NaN | NegInfinity | Fin rat | PosInfinity

datatype jsval =
    Undefined
  | Null
  | Bool bool
  | Num jsnum
  | Str string
  | Function string
  | Arr "jsval list"
  | Obj "(string \<times> jsval) list"

text \<open>
  What the language's run time supplies and the program does not define: the properties a
  value inherits from its prototype chain (\<open>Undefined\<close> where there is none), and the
  conversions between strings and numbers. The model takes them as a parameter.
\<close>

record runtime =
  inherited :: "jsval \<Rightarrow> string \<Rightarrow> jsval"
  numberOfString :: "string \<Rightarrow> jsnum"
  stringOfNumber :: "jsnum \<Rightarrow> string"

fun truthy :: "jsval \<Rightarrow> bool" where
  "truthy Undefined = False"
| "truthy Null = False"
| "truthy (Bool b) = b"
| "truthy (Num n) = (n \<noteq> NaN \<and> n \<noteq> Fin 0)"
| "truthy (Str s) = (s \<noteq> [])"
| "truthy (Function src) = True"
| "truthy (Arr xs) = True"
| "truthy (Obj kvs) = True"

text \<open>\<open>typeof v === 'object'\<close>: objects, arrays and \<open>null\<close>.\<close>

fun typeof_object :: "jsval \<Rightarrow> bool" where
  "typeof_object Null = True"
| "typeof_object (Arr xs) = True"
| "typeof_object (Obj kvs) = True"
| "typeof_object v = False"

text \<open>A property name that is an array index: a decimal numeral without a leading zero.\<close>

fun digits_value :: "string \<Rightarrow> nat \<Rightarrow> nat option" where
  "digits_value [] acc = Some acc"
| "digits_value (c # cs) acc =
     (let d = (of_char c :: nat) in
      if 48 \<le> d \<and> d \<le> 57 then digits_value cs (10 * acc + (d - 48)) else None)"

definition array_index :: "string \<Rightarrow> nat option" where
  "array_index k =
     (if k = [] \<or> (hd k = CHR ''0'' \<and> tl k \<noteq> []) then None else digits_value k 0)"

text \<open>
  The property read \<open>v[k]\<close>. It throws on \<open>undefined\<close> and \<open>null\<close>; an object answers with
  its own property, an array with an element or its length, a string with a character or
  its length, and everything else is looked up on the prototype chain.
\<close>

fun get_prop :: "runtime \<Rightarrow> jsval \<Rightarrow> string \<Rightarrow> error + jsval" where
  "get_prop rt Undefined k = Inl (TypeError ''Cannot read properties of undefined'')"
| "get_prop rt Null k = Inl (TypeError ''Cannot read properties of null'')"
| "get_prop rt (Obj kvs) k =
     (case map_of kvs k of Some v \<Rightarrow> Inr v | None \<Rightarrow> Inr (inherited rt (Obj kvs) k))"
| "get_prop rt (Arr xs) k =
     (case array_index k of
        Some i \<Rightarrow> if i < length xs then Inr (xs ! i) else Inr (inherited rt (Arr xs) k)
      | None \<Rightarrow>
          if k = ''length'' then Inr (Num (Fin (of_nat (length xs))))
          else Inr (inherited rt (Arr xs) k))"
| "get_prop rt (Str s) k =
     (case array_index k of
        Some i \<Rightarrow> if i < length s then Inr (Str [s ! i]) else Inr (inherited rt (Str s) k)
      | None \<Rightarrow>
          if k = ''length'' then Inr (Num (Fin (of_nat (length s))))
          else Inr (inherited rt (Str s) k))"
| "get_prop rt v k = Inr (inherited rt v k)"

text \<open>The operator \<open>a || b\<close>.\<close>

definition js_or :: "jsval \<Rightarrow> jsval \<Rightarrow> jsval" where
  "js_or a b = (if truthy a then a else b)"

subsection \<open>Relational comparison\<close>

text \<open>
  \<open>a < b\<close> converts both sides to primitives: a plain object to \<open>[object Object]\<close>, an array
  to its elements' strings joined by commas (\<open>undefined\<close> and \<open>null\<close> as the empty string), a
  function to its source text. Two strings are compared by code units; otherwise both sides
  are converted to numbers, and a comparison with \<open>NaN\<close> is false.
\<close>

fun join :: "string \<Rightarrow> string list \<Rightarrow> string" where
  "join sep [] = []"
| "join sep [x] = x"
| "join sep (x # y # ys) = x @ sep @ join sep (y # ys)"

fun toString :: "runtime \<Rightarrow> jsval \<Rightarrow> string" where
  "toString rt Undefined = ''undefined''"
| "toString rt Null = ''null''"
| "toString rt (Bool b) = (if b then ''true'' else ''false'')"
| "toString rt (Num n) = stringOfNumber rt n"
| "toString rt (Str s) = s"
| "toString rt (Function src) = src"
| "toString rt (Arr xs) =
     join '','' (map (\<lambda>x. if x = Undefined \<or> x = Null then [] else toString rt x) xs)"
| "toString rt (Obj kvs) = ''[object Object]''"

fun toPrimitive :: "runtime \<Rightarrow> jsval \<Rightarrow> jsval" where
  "toPrimitive rt (Function src) = Str (toString rt (Function src))"
| "toPrimitive rt (Arr xs) = Str (toString rt (Arr xs))"
| "toPrimitive rt (Obj kvs) = Str (toString rt (Obj kvs))"
| "toPrimitive rt v = v"

fun toNumber :: "runtime \<Rightarrow> jsval \<Rightarrow> jsnum" where
  "toNumber rt Undefined = NaN"
| "toNumber rt Null = Fin 0"
| "toNumber rt (Bool b) = Fin (if b then 1 else 0)"
| "toNumber rt (Num n) = n"
| "toNumber rt (Str s) = numberOfString rt s"
| "toNumber rt v = numberOfString rt (toString rt v)"

fun num_lt :: "jsnum \<Rightarrow> jsnum \<Rightarrow> bool" where
  "num_lt NaN y = False"
| "num_lt x NaN = False"
| "num_lt (Fin a) (Fin b) = (a < b)"
| "num_lt NegInfinity y = (y \<noteq> NegInfinity)"
| "num_lt x PosInfinity = (x \<noteq> PosInfinity)"
| "num_lt x y = False"

fun str_lt :: "string \<Rightarrow> string \<Rightarrow> bool" where
  "str_lt [] [] = False"
| "str_lt [] (y # ys) = True"
| "str_lt (x # xs) [] = False"
| "str_lt (x # xs) (y # ys) =
     ((of_char x :: nat) < of_char y \<or> (x = y \<and> str_lt xs ys))"

definition js_lt :: "runtime \<Rightarrow> jsval \<Rightarrow> jsval \<Rightarrow> bool" where
  "js_lt rt a b =
     (case (toPrimitive rt a, toPrimitive rt b) of
        (Str s, Str t) \<Rightarrow> str_lt s t
      | (pa, pb) \<Rightarrow> num_lt (toNumber rt pa) (toNumber rt pb))"

text \<open>\<open>a > b\<close> is \<open>b < a\<close>.\<close>

definition js_gt :: "runtime \<Rightarrow> jsval \<Rightarrow> jsval \<Rightarrow> bool" where
  "js_gt rt a b = js_lt rt b a"


section \<open>Candidates\<close>

text \<open>
  The interfaces of the types module as records. A field's name is the source's, with a
  prefix where two interfaces share it (\<open>doc_id\<close>, \<open>ai_summary\<close>, \<open>candidate_id\<close>) or a
  prime where it is a keyword (\<open>notes'\<close>). An optional field is an \<open>option\<close>; \<open>None\<close>
  stands for a property that is absent or \<open>null\<close>.
  The documents of a candidate are optional as well: the code reads them with
  \<open>candidate.documents?.notes\<close> and \<open>candidateData.documents || {}\<close>.
\<close>

datatype AIModel = openai | gemini

record AIAnalysis =
  ai_summary :: "string option"
  extractedSkills :: "string list option"
  extractedEducation :: "string list option"
  extractedExperience :: "string list option"
  suggestedScores :: "CategoryScores option"
  model :: AIModel
  generatedAt :: rat

record DocumentInfo =
  doc_id :: string
  doc_name :: string
  doc_url :: string
  doc_type :: string
  uploadedAt :: rat
  aiAnalysis :: "AIAnalysis option"

record CandidateDocuments =
  resume :: "DocumentInfo option"
  coverLetter :: "DocumentInfo option"
  notes' :: "DocumentInfo list option"
  transcripts :: "DocumentInfo list option"

datatype Status = Active | Inactive

record Candidate =
  candidate_id :: string
  name :: string
  email :: string
  phone :: "string option"
  linkedin :: "string option"
  github :: "string option"
  pictureUrl :: "string option"
  starRating :: rat
  status :: Status
  createdAt :: rat
  updatedAt :: rat
  scores :: CategoryScores
  overallScore :: rat
  documents :: "CandidateDocuments option"

datatype Direction = asc | desc

record SortOption =
  field :: string
  direction :: Direction

datatype StatusOption = Only Status | All

record FilterOptions =
  status_option :: "StatusOption option"
  minScore :: "rat option"
  maxScore :: "rat option"
  searchTerm :: "string option"

subsection \<open>A candidate as an object\<close>

text \<open>
  The client-side sort reads a candidate by property names taken from a string. These
  functions give the object a record stands for: one own property for every field that is
  present, under the source's property name.
\<close>

definition optional :: "string \<Rightarrow> ('a \<Rightarrow> jsval) \<Rightarrow> 'a option \<Rightarrow> (string \<times> jsval) list" where
  "optional k f v = (case v of None \<Rightarrow> [] | Some x \<Rightarrow> [(k, f x)])"

definition number :: "rat \<Rightarrow> jsval" where
  "number x = Num (Fin x)"

definition strings :: "string list \<Rightarrow> jsval" where
  "strings xs = Arr (map Str xs)"

definition scores_obj :: "CategoryScores \<Rightarrow> jsval" where
  "scores_obj s = Obj (map (\<lambda>(k, v). (k, number v)) s)"

definition analysis_obj :: "AIAnalysis \<Rightarrow> jsval" where
  "analysis_obj a =
     Obj (optional ''summary'' Str (ai_summary a) @
          optional ''extractedSkills'' strings (extractedSkills a) @
          optional ''extractedEducation'' strings (extractedEducation a) @
          optional ''extractedExperience'' strings (extractedExperience a) @
          optional ''suggestedScores'' scores_obj (suggestedScores a) @
          [(''model'', Str (case model a of openai \<Rightarrow> ''openai'' | gemini \<Rightarrow> ''gemini'')),
           (''generatedAt'', number (generatedAt a))])"

definition document_obj :: "DocumentInfo \<Rightarrow> jsval" where
  "document_obj d =
     Obj ([(''id'', Str (doc_id d)), (''name'', Str (doc_name d)), (''url'', Str (doc_url d)),
           (''type'', Str (doc_type d)), (''uploadedAt'', number (uploadedAt d))] @
          optional ''aiAnalysis'' analysis_obj (aiAnalysis d))"

definition documents_obj :: "CandidateDocuments \<Rightarrow> jsval" where
  "documents_obj ds =
     Obj (optional ''resume'' document_obj (resume ds) @
          optional ''coverLetter'' document_obj (coverLetter ds) @
          optional ''notes'' (\<lambda>xs. Arr (map document_obj xs)) (notes' ds) @
          optional ''transcripts'' (\<lambda>xs. Arr (map document_obj xs)) (transcripts ds))"

definition candidate_obj :: "Candidate \<Rightarrow> jsval" where
  "candidate_obj c =
     Obj ([(''id'', Str (candidate_id c)), (''name'', Str (name c)), (''email'', Str (email c))] @
          optional ''phone'' Str (phone c) @
          optional ''linkedin'' Str (linkedin c) @
          optional ''github'' Str (github c) @
          optional ''pictureUrl'' Str (pictureUrl c) @
          [(''starRating'', number (starRating c)),
           (''status'', Str (case status c of Active \<Rightarrow> ''Active'' | Inactive \<Rightarrow> ''Inactive'')),
           (''createdAt'', number (createdAt c)),
           (''updatedAt'', number (updatedAt c)),
           (''scores'', scores_obj (scores c)),
           (''overallScore'', number (overallScore c))] @
          optional ''documents'' documents_obj (documents c))"

section \<open>Listing candidates\<close>

subsection \<open>The query\<close>

text \<open>
  \<open>getCandidates\<close> builds constraints for the document store: a \<open>where\<close> on the status, an
  \<open>orderBy\<close> on a simple field or on \<open>updatedAt\<close> by default.
\<close>

datatype QueryConstraint = where_status Status | orderBy string Direction

definition simpleSortFields :: "string list" where
  "simpleSortFields = [''name'', ''email'', ''createdAt'', ''updatedAt'']"

definition status_constraints :: "FilterOptions option \<Rightarrow> QueryConstraint list" where
  "status_constraints filterOptions =
     (case filterOptions of
        None \<Rightarrow> []
      | Some fo \<Rightarrow>
          (case status_option fo of
             None \<Rightarrow> []
           | Some All \<Rightarrow> []
           | Some (Only s) \<Rightarrow> [where_status s]))"

definition sort_constraints :: "SortOption option \<Rightarrow> QueryConstraint list" where
  "sort_constraints sortOption =
     (case sortOption of
        Some so \<Rightarrow>
          if field so \<in> set simpleSortFields then [orderBy (field so) (direction so)] else []
      | None \<Rightarrow> [orderBy ''updatedAt'' desc])"

definition query_constraints :: "FilterOptions option \<Rightarrow> SortOption option \<Rightarrow> QueryConstraint list" where
  "query_constraints filterOptions sortOption =
     status_constraints filterOptions @ sort_constraints sortOption"

subsection \<open>The keyword search\<close>

text \<open>\<open>toLowerCase\<close> on the letters A to Z; other code units are left as they are.\<close>

definition lower_char :: "char \<Rightarrow> char" where
  "lower_char c =
     (let n = (of_char c :: nat) in if 65 \<le> n \<and> n \<le> 90 then char_of (n + 32) else c)"

definition toLowerCase :: "string \<Rightarrow> string" where
  "toLowerCase s = map lower_char s"

text \<open>\<open>s.startsWith(k)\<close> and \<open>s.includes(k)\<close>.\<close>

fun startsWith :: "string \<Rightarrow> string \<Rightarrow> bool" where
  "startsWith s [] = True"
| "startsWith [] (k # ks) = False"
| "startsWith (c # cs) (k # ks) = (c = k \<and> startsWith cs ks)"

fun includes_str :: "string \<Rightarrow> string \<Rightarrow> bool" where
  "includes_str [] k = (k = [])"
| "includes_str (c # cs) k = (startsWith (c # cs) k \<or> includes_str cs k)"

text \<open>
  The searchable fields of a candidate, before and after \<open>.filter(Boolean)\<close>, which drops
  the missing fields and the empty strings.
\<close>

definition candidate_fields :: "Candidate \<Rightarrow> string option list" where
  "candidate_fields candidate =
     [Some (name candidate), Some (email candidate), phone candidate, linkedin candidate,
      github candidate] @
     map (\<lambda>note. Some (doc_name note))
       (case documents candidate of
          None \<Rightarrow> []
        | Some ds \<Rightarrow> (case notes' ds of None \<Rightarrow> [] | Some ns \<Rightarrow> ns))"

definition searchableFields :: "Candidate \<Rightarrow> string list" where
  "searchableFields candidate =
     concat (map (\<lambda>f. case f of None \<Rightarrow> [] | Some s \<Rightarrow> if s \<noteq> [] then [s] else [])
       (candidate_fields candidate))"

definition matches_keyword :: "string \<Rightarrow> Candidate \<Rightarrow> bool" where
  "matches_keyword keyword candidate =
     list_ex (\<lambda>field. includes_str (toLowerCase field) keyword) (searchableFields candidate)"

definition search_filter :: "FilterOptions option \<Rightarrow> Candidate list \<Rightarrow> Candidate list" where
  "search_filter filterOptions candidates =
     (case filterOptions of
        None \<Rightarrow> candidates
      | Some fo \<Rightarrow>
          (case searchTerm fo of
             None \<Rightarrow> candidates
           | Some t \<Rightarrow>
               if t \<noteq> [] then filter (matches_keyword (toLowerCase t)) candidates
               else candidates))"

subsection \<open>The score bounds\<close>

definition minScore_filter :: "FilterOptions option \<Rightarrow> Candidate list \<Rightarrow> Candidate list" where
  "minScore_filter filterOptions candidates =
     (case filterOptions of
        None \<Rightarrow> candidates
      | Some fo \<Rightarrow>
          (case minScore fo of
             None \<Rightarrow> candidates
           | Some m \<Rightarrow> filter (\<lambda>c. overallScore c \<ge> m) candidates))"

definition maxScore_filter :: "FilterOptions option \<Rightarrow> Candidate list \<Rightarrow> Candidate list" where
  "maxScore_filter filterOptions candidates =
     (case filterOptions of
        None \<Rightarrow> candidates
      | Some fo \<Rightarrow>
          (case maxScore fo of
             None \<Rightarrow> candidates
           | Some m \<Rightarrow> filter (\<lambda>c. overallScore c \<le> m) candidates))"

subsection \<open>The client-side sort\<close>

text \<open>\<open>field.split('.')\<close>: the pieces between the dots, one piece for a string without a dot.\<close>

fun split_dot :: "string \<Rightarrow> string list" where
  "split_dot [] = [[]]"
| "split_dot (c # cs) =
     (if c = CHR ''.'' then [] # split_dot cs
      else (case split_dot cs of [] \<Rightarrow> [[c]] | p # ps \<Rightarrow> (c # p) # ps))"

text \<open>
  One round of the loop over the parts, for one of the two values:
  \<open>if (fieldA && typeof fieldA === 'object') fieldA = fieldA[part]\<close>. A value that is not
  an object stays as it is.
\<close>

definition field_step :: "runtime \<Rightarrow> jsval \<Rightarrow> string \<Rightarrow> error + jsval" where
  "field_step rt v part = (if truthy v \<and> typeof_object v then get_prop rt v part else Inr v)"

fun resolve_fields ::
  "runtime \<Rightarrow> jsval \<Rightarrow> jsval \<Rightarrow> string list \<Rightarrow> error + jsval \<times> jsval" where
  "resolve_fields rt fieldA fieldB [] = Inr (fieldA, fieldB)"
| "resolve_fields rt fieldA fieldB (part # parts) =
     (case field_step rt fieldA part of
        Inl e \<Rightarrow> Inl e
      | Inr fieldA' \<Rightarrow>
          (case field_step rt fieldB part of
             Inl e \<Rightarrow> Inl e
           | Inr fieldB' \<Rightarrow> resolve_fields rt fieldA' fieldB' parts))"

text \<open>
  The safety check: \<open>undefined\<close> and \<open>null\<close> become \<open>Number.NEGATIVE_INFINITY\<close> when the
  direction is \<open>asc\<close> and \<open>Number.POSITIVE_INFINITY\<close> otherwise.
\<close>

definition missing_sentinel :: "Direction \<Rightarrow> jsval" where
  "missing_sentinel d = Num (if d = asc then NegInfinity else PosInfinity)"

definition or_sentinel :: "Direction \<Rightarrow> jsval \<Rightarrow> jsval" where
  "or_sentinel d v = (if v = Undefined \<or> v = Null then missing_sentinel d else v)"

definition compare_candidates ::
  "runtime \<Rightarrow> SortOption \<Rightarrow> Candidate \<Rightarrow> Candidate \<Rightarrow> error + int" where
  "compare_candidates rt sortOption a b =
     (case resolve_fields rt (candidate_obj a) (candidate_obj b) (split_dot (field sortOption)) of
        Inl e \<Rightarrow> Inl e
      | Inr (fieldA0, fieldB0) \<Rightarrow>
          (let fieldA = or_sentinel (direction sortOption) fieldA0;
               fieldB = or_sentinel (direction sortOption) fieldB0
           in if direction sortOption = asc
              then Inr (if js_lt rt fieldA fieldB then - 1 else if js_gt rt fieldA fieldB then 1 else 0)
              else Inr (if js_gt rt fieldA fieldB then - 1 else if js_lt rt fieldA fieldB then 1 else 0)))"

text \<open>
  \<open>Array.prototype.sort\<close> with a comparison function is a stable sort; it is modelled by the
  stable insertion sort, which gives the order of every stable sort when the comparison
  function is consistent. An exception of the comparison function ends the sort.
\<close>

fun insert_by :: "('a \<Rightarrow> 'a \<Rightarrow> error + int) \<Rightarrow> 'a \<Rightarrow> 'a list \<Rightarrow> error + 'a list" where
  "insert_by cmp x [] = Inr [x]"
| "insert_by cmp x (y # ys) =
     (case cmp x y of
        Inl e \<Rightarrow> Inl e
      | Inr r \<Rightarrow>
          if r \<le> 0 then Inr (x # y # ys)
          else (case insert_by cmp x ys of Inl e \<Rightarrow> Inl e | Inr zs \<Rightarrow> Inr (y # zs)))"

fun array_sort :: "('a \<Rightarrow> 'a \<Rightarrow> error + int) \<Rightarrow> 'a list \<Rightarrow> error + 'a list" where
  "array_sort cmp [] = Inr []"
| "array_sort cmp (x # xs) =
     (case array_sort cmp xs of Inl e \<Rightarrow> Inl e | Inr ys \<Rightarrow> insert_by cmp x ys)"

definition client_sort ::
  "runtime \<Rightarrow> SortOption option \<Rightarrow> Candidate list \<Rightarrow> error + Candidate list" where
  "client_sort rt sortOption candidates =
     (case sortOption of
        None \<Rightarrow> Inr candidates
      | Some so \<Rightarrow>
          if field so \<notin> set simpleSortFields
          then array_sort (compare_candidates rt so) candidates
          else Inr candidates)"

subsection \<open>getCandidates\<close>

text \<open>
  The document store is outside the program: \<open>getDocs\<close> answers a list of constraints with
  the stored candidates it selects, or fails. \<open>now\<close> is the clock's \<open>Date.now()\<close>, which
  stands in for a time stamp that is missing or zero.
\<close>

definition to_candidate :: "rat \<Rightarrow> Candidate \<Rightarrow> Candidate" where
  "to_candidate now data =
     data\<lparr>createdAt := (if createdAt data \<noteq> 0 then createdAt data else now),
          updatedAt := (if updatedAt data \<noteq> 0 then updatedAt data else now)\<rparr>"

definition client_side ::
  "runtime \<Rightarrow> FilterOptions option \<Rightarrow> SortOption option \<Rightarrow> Candidate list \<Rightarrow>
     error + Candidate list" where
  "client_side rt filterOptions sortOption candidates =
     client_sort rt sortOption
       (maxScore_filter filterOptions
          (minScore_filter filterOptions (search_filter filterOptions candidates)))"

definition getCandidates ::
  "(QueryConstraint list \<Rightarrow> error + Candidate list) \<Rightarrow> runtime \<Rightarrow> rat \<Rightarrow>
     FilterOptions option \<Rightarrow> SortOption option \<Rightarrow> error + Candidate list" where
  "getCandidates getDocs rt now filterOptions sortOption =
     (case getDocs (query_constraints filterOptions sortOption) of
        Inl e \<Rightarrow> Inl e
      | Inr docs \<Rightarrow> client_side rt filterOptions sortOption (map (to_candidate now) docs))"



subsection \<open>loadCandidates of the home page\<close>





section \<open>The analysis routes\<close>

text \<open>
  Both routes parse the model's answer as JSON and build \<open>validatedResult\<close> from it: each
  field is the answer's field, or a default when that is falsy.
\<close>

definition default_suggestedScores :: jsval where
  "default_suggestedScores =
     Obj [(''technicalSkills'', number 5), (''communicationSkills'', number 5),
          (''experience'', number 5), (''culturalFit'', number 5)]"

definition bind :: "error + 'a \<Rightarrow> ('a \<Rightarrow> error + 'b) \<Rightarrow> error + 'b" where
  "bind m f = (case m of Inl e \<Rightarrow> Inl e | Inr x \<Rightarrow> f x)"

definition openai_validatedResult :: "runtime \<Rightarrow> jsval \<Rightarrow> error + jsval" where
  "openai_validatedResult rt result =
     bind (get_prop rt result ''summary'') (\<lambda>summary.
     bind (get_prop rt result ''extractedSkills'') (\<lambda>skills.
     bind (get_prop rt result ''extractedEducation'') (\<lambda>education.
     bind (get_prop rt result ''extractedExperience'') (\<lambda>experience.
     bind (get_prop rt result ''suggestedScores'') (\<lambda>suggested.
       Inr (Obj [(''summary'', js_or summary (Str [])),
                 (''extractedSkills'', js_or skills (Arr [])),
                 (''extractedEducation'', js_or education (Arr [])),
                 (''extractedExperience'', js_or experience (Arr [])),
                 (''suggestedScores'', js_or suggested default_suggestedScores)]))))))"

definition gemini_validatedResult :: "runtime \<Rightarrow> jsval \<Rightarrow> error + jsval" where
  "gemini_validatedResult rt resultObj =
     bind (get_prop rt resultObj ''summary'') (\<lambda>summary.
     bind (get_prop rt resultObj ''extractedSkills'') (\<lambda>skills.
     bind (get_prop rt resultObj ''extractedEducation'') (\<lambda>education.
     bind (get_prop rt resultObj ''extractedExperience'') (\<lambda>experience.
     bind (get_prop rt resultObj ''suggestedScores'') (\<lambda>suggested.
       Inr (Obj [(''summary'', js_or summary (Str [])),
                 (''extractedSkills'', js_or skills (Arr [])),
                 (''extractedEducation'', js_or education (Arr [])),
                 (''extractedExperience'', js_or experience (Arr [])),
                 (''suggestedScores'', js_or suggested default_suggestedScores)]))))))"

section \<open>Uploading a document\<close>

text \<open>
  The state is the document store (candidates by identifier) and the file storage (files
  by path). The clock and the storage's download address come from outside.
\<close>

record File =
  file_name :: string
  file_type :: string

record Store =
  docs :: "string \<rightharpoonup> Candidate"
  files :: "string \<rightharpoonup> File"

record UploadEnv =
  name_time :: rat
  upload_time :: rat
  downloadURL :: "string \<Rightarrow> string"

datatype DocumentType = resume_type | coverLetter_type | notes_type | transcripts_type

definition type_name :: "DocumentType \<Rightarrow> string" where
  "type_name t =
     (case t of resume_type \<Rightarrow> ''resume'' | coverLetter_type \<Rightarrow> ''coverLetter''
      | notes_type \<Rightarrow> ''notes'' | transcripts_type \<Rightarrow> ''transcripts'')"

definition empty_documents :: CandidateDocuments where
  "empty_documents = \<lparr>resume = None, coverLetter = None, notes' = None, transcripts = None\<rparr>"

text \<open>
  The update of the documents: a resume or a cover letter takes the place of the one
  there, a note or a transcript is pushed onto the array, which is created when missing.
\<close>

definition put_document :: "DocumentType \<Rightarrow> DocumentInfo \<Rightarrow> CandidateDocuments \<Rightarrow> CandidateDocuments" where
  "put_document documentType documentInfo ds =
     (case documentType of
        resume_type \<Rightarrow> ds\<lparr>resume := Some documentInfo\<rparr>
      | coverLetter_type \<Rightarrow> ds\<lparr>coverLetter := Some documentInfo\<rparr>
      | notes_type \<Rightarrow>
          ds\<lparr>notes' := Some ((case notes' ds of None \<Rightarrow> [] | Some xs \<Rightarrow> xs) @ [documentInfo])\<rparr>
      | transcripts_type \<Rightarrow>
          ds\<lparr>transcripts :=
               Some ((case transcripts ds of None \<Rightarrow> [] | Some xs \<Rightarrow> xs) @ [documentInfo])\<rparr>)"

definition uploadCandidateDocument ::
  "runtime \<Rightarrow> UploadEnv \<Rightarrow> string \<Rightarrow> File \<Rightarrow> DocumentType \<Rightarrow> Store \<Rightarrow>
     (error + DocumentInfo) \<times> Store" where
  "uploadCandidateDocument rt env candidateId file documentType st =
     (let fileExtension = last (split_dot (file_name file));
          fileName = candidateId @ ''_'' @ type_name documentType @ ''_'' @
                     stringOfNumber rt (Fin (name_time env)) @ ''.'' @ fileExtension;
          filePath = ''candidates/'' @ candidateId @ ''/'' @ type_name documentType @ ''/'' @ fileName;
          st1 = st\<lparr>files := (files st)(filePath \<mapsto> file)\<rparr>;
          documentInfo = \<lparr>doc_id = fileName, doc_name = file_name file,
                          doc_url = downloadURL env filePath, doc_type = file_type file,
                          uploadedAt = upload_time env, aiAnalysis = None\<rparr>
      in case docs st1 candidateId of
           None \<Rightarrow> (Inl (Error (''Candidate with ID '' @ candidateId @ '' not found'')), st1)
         | Some candidateData \<Rightarrow>
             (let ds = (case documents candidateData of None \<Rightarrow> empty_documents | Some d \<Rightarrow> d)
              in (Inr documentInfo,
                  st1\<lparr>docs := (docs st1)(candidateId \<mapsto>
                         candidateData\<lparr>documents := Some (put_document documentType documentInfo ds)\<rparr>)\<rparr>)))"

section \<open>The specification's reading of the list\<close>

subsection \<open>The value a candidate is sorted by\<close>

text \<open>
  The two values of a comparison are resolved independently of each other; this is the
  loop for one of them, and the value of a candidate for the path of a sort option.
\<close>

fun resolve_field :: "runtime \<Rightarrow> jsval \<Rightarrow> string list \<Rightarrow> error + jsval" where
  "resolve_field rt v [] = Inr v"
| "resolve_field rt v (part # parts) =
     (case field_step rt v part of Inl e \<Rightarrow> Inl e | Inr v' \<Rightarrow> resolve_field rt v' parts)"

definition resolved :: "runtime \<Rightarrow> SortOption \<Rightarrow> Candidate \<Rightarrow> error + jsval" where
  "resolved rt so c = resolve_field rt (candidate_obj c) (split_dot (field so))"

definition is_missing :: "runtime \<Rightarrow> SortOption \<Rightarrow> Candidate \<Rightarrow> bool" where
  "is_missing rt so c =
     (case resolved rt so c of Inr Undefined \<Rightarrow> True | Inr Null \<Rightarrow> True | _ \<Rightarrow> False)"

definition has_number :: "runtime \<Rightarrow> SortOption \<Rightarrow> Candidate \<Rightarrow> bool" where
  "has_number rt so c = (case resolved rt so c of Inr (Num (Fin x)) \<Rightarrow> True | _ \<Rightarrow> False)"

text \<open>
  The two readings of a sorted list: the candidates without a value after all others, as
  the specification words it, and before all others.
\<close>

definition missing_last :: "runtime \<Rightarrow> SortOption \<Rightarrow> Candidate list \<Rightarrow> bool" where
  "missing_last rt so out \<longleftrightarrow>
     out = filter (\<lambda>c. \<not> is_missing rt so c) out @ filter (is_missing rt so) out"

definition missing_first :: "runtime \<Rightarrow> SortOption \<Rightarrow> Candidate list \<Rightarrow> bool" where
  "missing_first rt so out \<longleftrightarrow>
     out = filter (is_missing rt so) out @ filter (\<lambda>c. \<not> is_missing rt so c) out"

subsection \<open>The fields of the search\<close>

text \<open>
  The fields the search term is matched against: name, email, the phone number and the
  two links where present, and the name of every note.
\<close>

definition present :: "'a option \<Rightarrow> 'a list" where
  "present v = (case v of None \<Rightarrow> [] | Some x \<Rightarrow> [x])"

definition search_fields :: "Candidate \<Rightarrow> string list" where
  "search_fields c =
     [name c, email c] @ present (phone c) @ present (linkedin c) @ present (github c) @
     map doc_name (concat (present (case documents c of None \<Rightarrow> None | Some ds \<Rightarrow> notes' ds)))"

section \<open>Examples\<close>

text \<open>
  A run time for closed examples: nothing is inherited, and the conversions between
  strings and numbers, which the examples do not reach, are constant.
\<close>

definition plain_runtime :: runtime where
  "plain_runtime =
     \<lparr>inherited = (\<lambda>v k. Undefined), numberOfString = (\<lambda>s. NaN), stringOfNumber = (\<lambda>n. [])\<rparr>"


text \<open>
  Candidates: Ada, with an overall score of 8 and a score for leadership, and Bob, with 6
  and none; a candidate with a given overall score.
\<close>

definition example_candidate :: "string \<Rightarrow> rat \<Rightarrow> CategoryScores \<Rightarrow> Candidate" where
  "example_candidate n overall sc =
     \<lparr>candidate_id = n, name = n, email = n @ ''@example.org'', phone = None, linkedin = None,
      github = None, pictureUrl = None, starRating = 0, status = Active, createdAt = 1,
      updatedAt = 1, scores = sc, overallScore = overall, documents = None\<rparr>"

definition ada :: Candidate where
  "ada = example_candidate ''Ada'' 8 [(''technicalSkills'', 8), (''leadership'', 7)]"

definition bob :: Candidate where
  "bob = example_candidate ''Bob'' 6 [(''technicalSkills'', 6)]"

definition scored :: "rat \<Rightarrow> Candidate" where
  "scored x = example_candidate ''Cy'' x []"

text \<open>Sort options: a category score, a path through a string, a path through a number.\<close>

definition by_leadership :: "Direction \<Rightarrow> SortOption" where
  "by_leadership d = \<lparr>field = ''scores.leadership'', direction = d\<rparr>"

definition by_first_name :: SortOption where
  "by_first_name = \<lparr>field = ''name.first'', direction = asc\<rparr>"

definition by_score_points :: "Direction \<Rightarrow> SortOption" where
  "by_score_points d = \<lparr>field = ''overallScore.points'', direction = d\<rparr>"

text \<open>Filter options: a search term only, score bounds only.\<close>

definition search_for :: "string \<Rightarrow> FilterOptions" where
  "search_for t = \<lparr>status_option = None, minScore = None, maxScore = None, searchTerm = Some t\<rparr>"

definition score_between :: "rat \<Rightarrow> rat \<Rightarrow> FilterOptions" where
  "score_between lo hi =
     \<lparr>status_option = None, minScore = Some lo, maxScore = Some hi, searchTerm = None\<rparr>"

text \<open>Documents, a file to upload, and a store that holds Ada with a resume and a note.\<close>

definition example_note :: DocumentInfo where
  "example_note =
     \<lparr>doc_id = ''n1'', doc_name = ''Interview notes.txt'', doc_url = ''https://files/n1'',
      doc_type = ''text/plain'', uploadedAt = 2, aiAnalysis = None\<rparr>"

definition example_resume :: DocumentInfo where
  "example_resume =
     \<lparr>doc_id = ''r1'', doc_name = ''cv.pdf'', doc_url = ''https://files/r1'',
      doc_type = ''application/pdf'', uploadedAt = 1, aiAnalysis = None\<rparr>"

definition example_documents :: CandidateDocuments where
  "example_documents =
     \<lparr>resume = Some example_resume, coverLetter = None, notes' = Some [example_note],
      transcripts = None\<rparr>"

definition with_documents :: "Candidate \<Rightarrow> Candidate" where
  "with_documents c = c\<lparr>documents := Some example_documents\<rparr>"

definition example_file :: File where
  "example_file = \<lparr>file_name = ''cv.final.pdf'', file_type = ''application/pdf''\<rparr>"

definition example_env :: UploadEnv where
  "example_env = \<lparr>name_time = 10, upload_time = 11, downloadURL = (\<lambda>p. ''https://files/'' @ p)\<rparr>"

definition example_store :: Store where
  "example_store = \<lparr>docs = [''Ada'' \<mapsto> with_documents ada], files = Map.empty\<rparr>"

text \<open>Answers of the analysis model: one without suggested scores, one with a part of them.\<close>

definition answer_without_scores :: jsval where
  "answer_without_scores = Obj [(''summary'', Str ''A short summary'')]"

definition answer_with_partial_scores :: jsval where
  "answer_with_partial_scores =
     Obj [(''summary'', Str ''A short summary''),
          (''suggestedScores'', Obj [(''technicalSkills'', number 8)])]"

section \<open>Properties of the binary64 rounding\<close>

text \<open>
  The exponent is the binary logarithm rounded down; the rounded value is within half a
  unit in the last place of the argument, and has a significand of at most 53 bits.
\<close>

lemma pow2_powi: "pow2 e = 2 powi e"
  by (simp add: pow2_def power_int_def inverse_eq_divide power_one_over)

lemma pow2_pos: "0 < pow2 e"
  by (simp add: pow2_powi)

lemma pow2_add: "pow2 (a + b) = pow2 a * pow2 b"
  by (simp add: pow2_powi power_int_add)

lemma pow2_mono: "a \<le> b \<Longrightarrow> pow2 a \<le> pow2 b"
  by (simp add: pow2_powi power_int_increasing)

lemma pow2_of_nat: "pow2 (int n) = 2 ^ n"
  by (simp add: pow2_def)

lemma bitlen_pow2_bounds:
  assumes "0 < p"
  shows "pow2 (bitlen p - 1) \<le> of_int p" and "of_int p < pow2 (bitlen p)"
proof -
  have b: "0 < bitlen p"
    using assms bitlen_eq_zero_iff[of p] bitlen_nonneg[of p] by linarith
  from bitlen_bounds[OF assms] have l: "2 ^ nat (bitlen p - 1) \<le> p" and u: "p < 2 ^ nat (bitlen p)"
    by auto
  have "pow2 (bitlen p - 1) = of_int (2 ^ nat (bitlen p - 1))"
    using b by (simp add: pow2_def)
  also have "\<dots> \<le> of_int p" using l by (simp only: of_int_le_iff)
  finally show "pow2 (bitlen p - 1) \<le> of_int p" .
  have "(of_int p :: rat) < of_int (2 ^ nat (bitlen p))" using u by (simp only: of_int_less_iff)
  also have "\<dots> = pow2 (bitlen p)" using b by (simp add: pow2_def)
  finally show "of_int p < pow2 (bitlen p)" .
qed

lemma exponent_bounds:
  assumes "x \<noteq> 0"
  shows "pow2 (exponent x) \<le> \<bar>x\<bar>" and "\<bar>x\<bar> < pow2 (exponent x + 1)"
proof -
  obtain p q where pq: "quotient_of \<bar>x\<bar> = (p, q)" by (cases "quotient_of \<bar>x\<bar>")
  then have q: "0 < q" by (rule quotient_of_denom_pos)
  have x: "\<bar>x\<bar> = of_int p / of_int q" using pq by (rule quotient_of_div)
  have "0 < \<bar>x\<bar>" using assms by simp
  then have p: "0 < p" unfolding x using q by (simp add: zero_less_divide_iff)
  define d where "d = bitlen p - bitlen q"
  have e: "exponent x = (if pow2 d \<le> \<bar>x\<bar> then d else d - 1)"
    by (simp add: exponent_def pq d_def Let_def)
  have qpos: "(0::rat) < of_int q" using q by simp
  have lo: "pow2 (d - 1) \<le> \<bar>x\<bar>"
  proof -
    have "pow2 (d - 1) * of_int q < pow2 (d - 1) * pow2 (bitlen q)"
      using bitlen_pow2_bounds(2)[OF q] pow2_pos by simp
    also have "\<dots> = pow2 (bitlen p - 1)"
      unfolding pow2_add[symmetric] d_def by simp
    also have "\<dots> \<le> of_int p" by (rule bitlen_pow2_bounds(1)[OF p])
    finally have "pow2 (d - 1) * of_int q \<le> of_int p" by simp
    then show ?thesis unfolding x using qpos by (simp add: pos_le_divide_eq)
  qed
  have hi: "\<bar>x\<bar> < pow2 (d + 1)"
  proof -
    have "of_int p < pow2 (bitlen p)" by (rule bitlen_pow2_bounds(2)[OF p])
    also have "\<dots> = pow2 (d + 1) * pow2 (bitlen q - 1)"
      unfolding pow2_add[symmetric] d_def by simp
    also have "\<dots> \<le> pow2 (d + 1) * of_int q"
      using bitlen_pow2_bounds(1)[OF q] pow2_pos by simp
    finally show ?thesis unfolding x using qpos by (simp add: pos_divide_less_eq)
  qed
  show "pow2 (exponent x) \<le> \<bar>x\<bar>" using lo e by auto
  show "\<bar>x\<bar> < pow2 (exponent x + 1)" using hi e by (auto simp: not_le)
qed

lemma round_ties_even_nearest: "\<bar>of_int (round_ties_even y) - y\<bar> \<le> 1 / 2"
proof -
  have "of_int \<lfloor>y\<rfloor> \<le> y" "y < of_int \<lfloor>y\<rfloor> + 1" by linarith+
  then show ?thesis
    unfolding round_ties_even_def Let_def by (simp add: abs_if) linarith
qed

lemma binary64_error:
  "\<bar>binary64 x - x\<bar> \<le> pow2 (max (exponent x) (- 1022) - 52) / 2"
proof (cases "x = 0")
  case True
  then show ?thesis using pow2_pos[of "max (exponent 0) (- 1022) - 52"] by (simp add: binary64_def)
next
  case False
  define u where "u = pow2 (max (exponent x) (- 1022) - 52)"
  have u: "0 < u" unfolding u_def by (rule pow2_pos)
  have "binary64 x - x = (of_int (round_ties_even (x / u)) - x / u) * u"
    using False u by (simp add: binary64_def u_def[symmetric] Let_def field_simps)
  then have "\<bar>binary64 x - x\<bar> = \<bar>of_int (round_ties_even (x / u)) - x / u\<bar> * u"
    using u by (simp add: abs_mult)
  also have "\<dots> \<le> 1 / 2 * u"
    using round_ties_even_nearest[of "x / u"] u by (intro mult_right_mono) simp_all
  finally show ?thesis unfolding u_def by simp
qed


lemma round_ties_even_bounded:
  assumes "\<bar>y\<bar> \<le> of_int n"
  shows "\<bar>round_ties_even y\<bar> \<le> n"
proof -
  have f: "of_int \<lfloor>y\<rfloor> \<le> y" "y < of_int \<lfloor>y\<rfloor> + 1" by linarith+
  from assms have yn: "y \<le> of_int n" and ny: "- of_int n \<le> y" by linarith+
  from ny have lo: "- n \<le> \<lfloor>y\<rfloor>" by (simp add: le_floor_iff)
  from yn have hi: "\<lfloor>y\<rfloor> \<le> n" using floor_mono[OF yn] by simp
  show ?thesis
  proof (cases "\<lfloor>y\<rfloor> = n")
    case True
    with f yn have "y - of_int \<lfloor>y\<rfloor> = 0" by simp
    then show ?thesis using True lo by (simp add: round_ties_even_def Let_def)
  next
    case False
    with hi have "\<lfloor>y\<rfloor> + 1 \<le> n" by simp
    with lo hi show ?thesis by (auto simp: round_ties_even_def Let_def)
  qed
qed

lemma binary64_significand:
  assumes "x \<noteq> 0"
  shows "\<exists>m. binary64 x = of_int m * pow2 (max (exponent x) (- 1022) - 52) \<and> \<bar>m\<bar> \<le> 2 ^ 53"
proof -
  define e where "e = max (exponent x) (- 1022)"
  define u where "u = pow2 (e - 52)"
  define N :: int where "N = 2 ^ 53"
  have u: "0 < u" unfolding u_def by (rule pow2_pos)
  have N: "pow2 53 = of_int N" unfolding N_def by (simp add: pow2_def)
  have "\<bar>x\<bar> < pow2 (exponent x + 1)" by (rule exponent_bounds(2)[OF assms])
  also have "\<dots> \<le> pow2 (e + 1)" unfolding e_def by (rule pow2_mono) simp
  also have "\<dots> = pow2 53 * u"
    unfolding u_def using pow2_add[of 53 "e - 52"] by (simp add: algebra_simps)
  finally have "\<bar>x\<bar> / u < of_int N"
    using u unfolding N by (simp add: pos_divide_less_eq)
  moreover have "\<bar>x / u\<bar> = \<bar>x\<bar> / u"
    using u by (simp only: abs_divide abs_of_pos)
  ultimately have "\<bar>x / u\<bar> \<le> of_int N" by linarith
  then have m: "\<bar>round_ties_even (x / u)\<bar> \<le> N"
    by (rule round_ties_even_bounded)
  have b: "binary64 x = of_int (round_ties_even (x / u)) * u"
    using assms by (simp add: binary64_def u_def e_def Let_def)
  from b m show ?thesis
    unfolding u_def e_def N_def by (intro exI conjI)
qed

section \<open>Properties of the overall score\<close>

text \<open>The double format at work: 0.1 + 0.2 is above 0.3.\<close>

lemma binary64_tenth_plus_fifth:
  "binary64 (1 / 10) = 3602879701896397 / 36028797018963968 \<and>
   binary64 (3 / 10) < binary64 (binary64 (1 / 10) + binary64 (2 / 10))"
  by code_simp




lemma floor_half: "\<lfloor>1 / 2 :: rat\<rfloor> = 0"
  by (simp add: floor_eq_iff)


lemma round_one_decimal_minus: "round_one_decimal (- x) = - round_one_decimal x"
  by (simp add: round_one_decimal_def sgn_minus)

lemma toFixed1_round: "of_int (toFixed1 x) / 10 = round_one_decimal x"
  by (cases "x = 0") (auto simp: toFixed1_def round_one_decimal_def sgn_if abs_if floor_half)

lemma rounds_half_away_minus: "rounds_half_away x r \<Longrightarrow> rounds_half_away (- x) (- r)"
  unfolding rounds_half_away_def
proof (elim conjE exE, intro conjI)
  fix n :: int assume "r = of_int n / 10"
  then have "- r = of_int (- n) / 10" by simp
  then show "\<exists>n::int. - r = of_int n / 10" by blast
next
  assume "\<bar>r - x\<bar> < 1 / 20 \<or> \<bar>r - x\<bar> = 1 / 20 \<and> \<bar>x\<bar> < \<bar>r\<bar>"
  moreover have "\<bar>- r - - x\<bar> = \<bar>r - x\<bar>" by (simp add: abs_if)
  ultimately show "\<bar>- r - - x\<bar> < 1 / 20 \<or> \<bar>- r - - x\<bar> = 1 / 20 \<and> \<bar>- x\<bar> < \<bar>- r\<bar>" by simp
qed

lemma round_one_decimal_nonneg:
  fixes y :: rat
  assumes "0 \<le> y"
  shows "rounds_half_away y (round_one_decimal y)"
proof -
  define n where "n = \<lfloor>y * 10 + 1 / 2\<rfloor>"
  have a: "of_int n \<le> y * 10 + 1 / 2" and b: "y * 10 + 1 / 2 < of_int n + 1"
    unfolding n_def by linarith+
  have "0 \<le> n" unfolding n_def using assms by simp
  then have n0: "(0::rat) \<le> of_int n" by simp
  have r: "round_one_decimal y = of_int n / 10"
    using assms by (cases "y = 0") (auto simp: round_one_decimal_def n_def sgn_if floor_half)
  have "\<bar>of_int n / 10 - y\<bar> < 1 / 20 \<or> \<bar>of_int n / 10 - y\<bar> = 1 / 20 \<and> \<bar>y\<bar> < \<bar>of_int n / 10\<bar>"
    using a b n0 assms by (auto simp: abs_if field_simps)
  then show ?thesis unfolding rounds_half_away_def r by blast
qed

lemma round_one_decimal_half_away: "rounds_half_away x (round_one_decimal x)"
proof (cases "0 \<le> x")
  case True
  then show ?thesis by (rule round_one_decimal_nonneg)
next
  case False
  then have "0 \<le> - x" by simp
  from rounds_half_away_minus[OF round_one_decimal_nonneg[OF this]]
  show ?thesis by (simp add: round_one_decimal_minus)
qed


lemma example_applied_keys:
  "applied_keys (example_scores @ extra) (DEFAULT_WEIGHTS exact) =
     {''technicalSkills'', ''communicationSkills'', ''experience'', ''culturalFit''}
     \<union> (fst ` set extra \<inter> fst ` set (DEFAULT_WEIGHTS exact))"
  by (auto simp: applied_keys_def example_scores_def DEFAULT_WEIGHTS_def)




text \<open>
  C2. The value returned is the quotient the code computes, rounded to one decimal digit half
  away from zero (a multiple of a tenth nearest to the quotient, of two the one farther from
  zero), read back as a number. For the scores 8, 6, 7, 9 and the default weights the exact
  weighted sum is 7.35 and the result is 7.4, in exact arithmetic and in binary64 arithmetic,
  where the running sum is just above 7.35.
\<close>

theorem calculateOverallScore_rounds_half_away:
  "(case score_loop rnd weights scs (0, 0) of
      (weightedScore, totalWeight) \<Rightarrow>
        if totalWeight = 0 then calculateOverallScore rnd scs weights = Inr 0
        else (\<exists>r. calculateOverallScore rnd scs weights = Inr (rnd r) \<and>
                  rounds_half_away (rnd (weightedScore / totalWeight)) r)) \<and>
   weighted_sum example_scores (DEFAULT_WEIGHTS exact) = 735 / 100 \<and>
   weight_total example_scores (DEFAULT_WEIGHTS exact) = 1 \<and>
   calculateOverallScore exact example_scores (DEFAULT_WEIGHTS exact) = Inr (74 / 10) \<and>
   score_loop binary64 (DEFAULT_WEIGHTS binary64) example_scores (0, 0) =
     (8275364315293287 / 1125899906842624, 1) \<and>
   calculateOverallScore binary64 example_scores (DEFAULT_WEIGHTS binary64) =
     Inr (binary64 (74 / 10))"
proof (intro conjI)
  show "case score_loop rnd weights scs (0, 0) of
      (weightedScore, totalWeight) \<Rightarrow>
        if totalWeight = 0 then calculateOverallScore rnd scs weights = Inr 0
        else (\<exists>r. calculateOverallScore rnd scs weights = Inr (rnd r) \<and>
                  rounds_half_away (rnd (weightedScore / totalWeight)) r)"
  proof (cases "score_loop rnd weights scs (0, 0)")
    case (Pair ws tw)
    have "rounds_half_away (rnd (ws / tw)) (of_int (toFixed1 (rnd (ws / tw))) / 10)"
      unfolding toFixed1_round by (rule round_one_decimal_half_away)
    then show ?thesis
      using Pair by (auto simp: calculateOverallScore_def divide_checked_def parseFloat1_def)
  qed
  have k: "applied_keys example_scores (DEFAULT_WEIGHTS exact) =
      {''technicalSkills'', ''communicationSkills'', ''experience'', ''culturalFit''}"
    using example_applied_keys[of "[]"] by simp
  show "weighted_sum example_scores (DEFAULT_WEIGHTS exact) = 735 / 100"
    unfolding weighted_sum_def k by (simp add: example_scores_def DEFAULT_WEIGHTS_def exact_def)
  show "weight_total example_scores (DEFAULT_WEIGHTS exact) = 1"
    unfolding weight_total_def k by (simp add: DEFAULT_WEIGHTS_def exact_def)
  show "calculateOverallScore exact example_scores (DEFAULT_WEIGHTS exact) = Inr (74 / 10)"
    by (simp add: calculateOverallScore_def example_scores_def DEFAULT_WEIGHTS_def exact_def
        divide_checked_def parseFloat1_def toFixed1_def)
  show "score_loop binary64 (DEFAULT_WEIGHTS binary64) example_scores (0, 0) =
      (8275364315293287 / 1125899906842624, 1)"
    by code_simp
  show "calculateOverallScore binary64 example_scores (DEFAULT_WEIGHTS binary64) =
      Inr (binary64 (74 / 10))"
    by code_simp
qed

text \<open>
  C9. The score calculation returns a number for every rounding and every pair of objects:
  the branch of the division that leaves the finite numbers is never taken, because a zero
  total weight returns 0 before the division.
\<close>

theorem calculateOverallScore_total:
  "\<exists>r. calculateOverallScore rnd scs weights = Inr r"
  by (simp add: calculateOverallScore_def divide_checked_def split: prod.splits)

section \<open>Properties of the client-side sort\<close>

lemma field_step_total: "\<exists>v'. field_step rt v part = Inr v'"
  by (cases v) (auto simp: field_step_def split: option.splits)

lemma resolve_field_total: "\<exists>v'. resolve_field rt v parts = Inr v'"
proof (induction parts arbitrary: v)
  case Nil
  show ?case by simp
next
  case (Cons part parts)
  obtain v1 where "field_step rt v part = Inr v1"
    using field_step_total by blast
  with Cons show ?case by simp
qed

lemma resolve_fields_pair:
  assumes "resolve_field rt a parts = Inr va" and "resolve_field rt b parts = Inr vb"
  shows "resolve_fields rt a b parts = Inr (va, vb)"
  using assms
proof (induction parts arbitrary: a b)
  case Nil
  then show ?case by simp
next
  case (Cons part parts)
  obtain a1 where a1: "field_step rt a part = Inr a1"
    using field_step_total by blast
  obtain b1 where b1: "field_step rt b part = Inr b1"
    using field_step_total by blast
  from Cons a1 b1 show ?case by simp
qed

lemma resolve_field_stays:
  "\<not> (truthy v \<and> typeof_object v) \<Longrightarrow> resolve_field rt v parts = Inr v"
  by (induction parts) (auto simp: field_step_def)

lemma insert_by_mset:
  assumes "\<And>a b. \<exists>r. cmp a b = Inr r"
  shows "\<exists>out. insert_by cmp x ys = Inr out \<and> mset out = mset (x # ys)"
proof (induction ys)
  case Nil
  show ?case by simp
next
  case (Cons y ys)
  obtain r where r: "cmp x y = Inr r" using assms by blast
  from Cons obtain zs where "insert_by cmp x ys = Inr zs" "mset zs = mset (x # ys)" by blast
  with r show ?case by auto
qed

lemma array_sort_mset:
  assumes "\<And>a b. \<exists>r. cmp a b = Inr r"
  shows "\<exists>out. array_sort cmp xs = Inr out \<and> mset out = mset xs"
proof (induction xs)
  case Nil
  show ?case by simp
next
  case (Cons x xs)
  then obtain ys where ys: "array_sort cmp xs = Inr ys" "mset ys = mset xs" by blast
  from insert_by_mset[of cmp x ys, OF assms] obtain out where
    "insert_by cmp x ys = Inr out" "mset out = mset (x # ys)" by blast
  with ys show ?case by simp
qed

lemma compare_candidates_total: "\<exists>r. compare_candidates rt so a b = Inr r"
proof -
  obtain va where va: "resolve_field rt (candidate_obj a) (split_dot (field so)) = Inr va"
    using resolve_field_total by blast
  obtain vb where vb: "resolve_field rt (candidate_obj b) (split_dot (field so)) = Inr vb"
    using resolve_field_total by blast
  show ?thesis
    unfolding compare_candidates_def resolve_fields_pair[OF va vb] by (simp add: Let_def)
qed

lemma client_sort_mset: "\<exists>out. client_sort rt so cs = Inr out \<and> mset out = mset cs"
proof (cases so)
  case None
  then show ?thesis by (simp add: client_sort_def)
next
  case (Some s)
  from array_sort_mset[of "compare_candidates rt s" cs, OF compare_candidates_total]
  show ?thesis using Some by (auto simp: client_sort_def)
qed

lemma compare_candidates_keys:
  assumes "resolved rt so a = Inr va" and "resolved rt so b = Inr vb"
  shows "compare_candidates rt so a b =
     (let fieldA = or_sentinel (direction so) va; fieldB = or_sentinel (direction so) vb
      in if direction so = asc
         then Inr (if js_lt rt fieldA fieldB then - 1 else if js_gt rt fieldA fieldB then 1 else 0)
         else Inr (if js_gt rt fieldA fieldB then - 1 else if js_lt rt fieldA fieldB then 1 else 0))"
  using assms unfolding resolved_def compare_candidates_def
  by (simp add: resolve_fields_pair)

lemma js_lt_numbers: "js_lt rt (Num x) (Num y) = num_lt x y"
  by (simp add: js_lt_def)

lemma or_sentinel_number: "or_sentinel d (Num n) = Num n"
  by (simp add: or_sentinel_def)

lemma is_missingE:
  assumes "is_missing rt so c"
  obtains v where "resolved rt so c = Inr v" "or_sentinel (direction so) v = missing_sentinel (direction so)"
  using assms unfolding is_missing_def or_sentinel_def
  by (auto split: sum.splits jsval.splits)

lemma has_numberE:
  assumes "has_number rt so c"
  obtains x where "resolved rt so c = Inr (Num (Fin x))"
  using assms unfolding has_number_def
  by (auto split: sum.splits jsval.splits jsnum.splits)

lemma missing_not_number: "is_missing rt so c \<Longrightarrow> \<not> has_number rt so c"
  unfolding is_missing_def has_number_def
  by (auto split: sum.splits jsval.splits jsnum.splits)

lemma compare_missing_first:
  assumes "is_missing rt so m" and "is_missing rt so c \<or> has_number rt so c"
  shows "\<exists>r. compare_candidates rt so m c = Inr r \<and> r \<le> 0"
proof -
  from assms(1) obtain vm where vm: "resolved rt so m = Inr vm"
    "or_sentinel (direction so) vm = missing_sentinel (direction so)" by (rule is_missingE)
  from assms(2) show ?thesis
  proof
    assume "is_missing rt so c"
    then obtain vc where vc: "resolved rt so c = Inr vc"
      "or_sentinel (direction so) vc = missing_sentinel (direction so)" by (rule is_missingE)
    show ?thesis
      unfolding compare_candidates_keys[OF vm(1) vc(1)]
      by (simp add: Let_def vm(2) vc(2) missing_sentinel_def js_lt_numbers js_gt_def)
  next
    assume "has_number rt so c"
    then obtain x where vc: "resolved rt so c = Inr (Num (Fin x))" by (rule has_numberE)
    show ?thesis
      unfolding compare_candidates_keys[OF vm(1) vc(1)]
      by (simp add: Let_def vm(2) or_sentinel_number missing_sentinel_def js_lt_numbers js_gt_def)
  qed
qed

lemma compare_number_missing:
  assumes "has_number rt so c" and "is_missing rt so m"
  shows "compare_candidates rt so c m = Inr 1"
proof -
  from assms(2) obtain vm where vm: "resolved rt so m = Inr vm"
    "or_sentinel (direction so) vm = missing_sentinel (direction so)" by (rule is_missingE)
  from assms(1) obtain x where vc: "resolved rt so c = Inr (Num (Fin x))" by (rule has_numberE)
  show ?thesis
    unfolding compare_candidates_keys[OF vc(1) vm(1)]
    by (simp add: Let_def vm(2) or_sentinel_number missing_sentinel_def js_lt_numbers js_gt_def)
qed

lemma insert_missing:
  assumes "is_missing rt so m" and "\<forall>c \<in> set ys. is_missing rt so c \<or> has_number rt so c"
  shows "insert_by (compare_candidates rt so) m ys = Inr (m # ys)"
proof (cases ys)
  case Nil
  then show ?thesis by simp
next
  case (Cons y ys')
  with assms(2) have "is_missing rt so y \<or> has_number rt so y" by simp
  from compare_missing_first[OF assms(1) this] Cons show ?thesis by auto
qed

lemma insert_number:
  assumes "has_number rt so c" and "\<forall>m \<in> set ms. is_missing rt so m"
  shows "\<exists>rs'. insert_by (compare_candidates rt so) c (ms @ rs) = Inr (ms @ rs') \<and>
           insert_by (compare_candidates rt so) c rs = Inr rs'"
  using assms(2)
proof (induction ms)
  case Nil
  from insert_by_mset[of "compare_candidates rt so" c rs, OF compare_candidates_total]
  show ?case by auto
next
  case (Cons m ms)
  then have "is_missing rt so m" by simp
  from compare_number_missing[OF assms(1) this] Cons show ?case by auto
qed

lemma array_sort_missing_first:
  assumes "\<forall>c \<in> set cs. is_missing rt so c \<or> has_number rt so c"
  shows "\<exists>rs. array_sort (compare_candidates rt so) cs = Inr (filter (is_missing rt so) cs @ rs) \<and>
           mset rs = mset (filter (has_number rt so) cs)"
  using assms
proof (induction cs)
  case Nil
  show ?case by simp
next
  case (Cons x xs)
  then obtain rs where rs: "array_sort (compare_candidates rt so) xs = Inr (filter (is_missing rt so) xs @ rs)"
    "mset rs = mset (filter (has_number rt so) xs)" by auto
  have all: "\<forall>c \<in> set (filter (is_missing rt so) xs @ rs). is_missing rt so c \<or> has_number rt so c"
  proof
    fix c assume "c \<in> set (filter (is_missing rt so) xs @ rs)"
    then have "c \<in> set (filter (is_missing rt so) xs) \<or> c \<in># mset rs" by auto
    then show "is_missing rt so c \<or> has_number rt so c"
      unfolding rs(2) by auto
  qed
  from Cons.prems have "is_missing rt so x \<or> has_number rt so x" by simp
  then show ?case
  proof
    assume m: "is_missing rt so x"
    from insert_missing[OF m all] rs missing_not_number[OF m] m show ?thesis by simp
  next
    assume n: "has_number rt so x"
    then have nm: "\<not> is_missing rt so x" using missing_not_number by blast
    from insert_number[OF n, of "filter (is_missing rt so) xs" rs]
    obtain rs' where rs': "insert_by (compare_candidates rt so) x (filter (is_missing rt so) xs @ rs)
        = Inr (filter (is_missing rt so) xs @ rs')"
      "insert_by (compare_candidates rt so) x rs = Inr rs'" by auto
    from insert_by_mset[of "compare_candidates rt so" x rs, OF compare_candidates_total] rs'(2)
    have "mset rs' = mset (x # rs)" by auto
    with rs rs' n nm show ?thesis by simp
  qed
qed

lemma resolved_ada_leadership: "resolved plain_runtime (by_leadership d) ada = Inr (number 7)"
  by (simp add: resolved_def by_leadership_def ada_def example_candidate_def candidate_obj_def
      optional_def scores_obj_def field_step_def plain_runtime_def)

lemma resolved_bob_leadership: "resolved plain_runtime (by_leadership d) bob = Inr Undefined"
  by (simp add: resolved_def by_leadership_def bob_def example_candidate_def candidate_obj_def
      optional_def scores_obj_def field_step_def plain_runtime_def)

lemma ada_not_bob: "ada \<noteq> bob"
  by (simp add: ada_def bob_def example_candidate_def)

lemma leadership_missing:
  "has_number plain_runtime (by_leadership d) ada" "\<not> is_missing plain_runtime (by_leadership d) ada"
  "is_missing plain_runtime (by_leadership d) bob" "\<not> has_number plain_runtime (by_leadership d) bob"
  by (simp_all add: has_number_def is_missing_def resolved_ada_leadership resolved_bob_leadership
      number_def)

text \<open>
  C3 (as the code has it). Sorting on a field that is not one of the simple fields, when
  every candidate's value for the path is \<open>undefined\<close>, \<open>null\<close> or a finite number, puts the
  candidates without a value before all candidates with a number, in their input order,
  whatever the direction; the candidates with a number follow.
\<close>

theorem client_sort_missing_first:
  assumes "field so \<notin> set simpleSortFields"
    and "\<forall>c \<in> set cs. is_missing rt so c \<or> has_number rt so c"
  shows "\<exists>rs. client_sort rt (Some so) cs = Inr (filter (is_missing rt so) cs @ rs) \<and>
           mset rs = mset (filter (has_number rt so) cs) \<and>
           missing_first rt so (filter (is_missing rt so) cs @ rs)"
proof -
  from array_sort_missing_first[OF assms(2)] obtain rs where
    rs: "array_sort (compare_candidates rt so) cs = Inr (filter (is_missing rt so) cs @ rs)"
      "mset rs = mset (filter (has_number rt so) cs)" by blast
  have "\<forall>c \<in> set rs. \<not> is_missing rt so c"
  proof
    fix c assume "c \<in> set rs"
    then have "c \<in># mset rs" by simp
    then have "has_number rt so c" unfolding rs(2) by simp
    then show "\<not> is_missing rt so c" using missing_not_number by blast
  qed
  then have "missing_first rt so (filter (is_missing rt so) cs @ rs)"
    unfolding missing_first_def by (simp add: filter_id_conv filter_empty_conv)
  with rs assms(1) show ?thesis by (auto simp: client_sort_def)
qed

text \<open>Sorting Ada (leadership 7) and Bob (no such score) in descending direction.\<close>

theorem client_sort_missing_first_witness:
  "field (by_leadership desc) \<notin> set simpleSortFields \<and>
   has_number plain_runtime (by_leadership desc) ada \<and>
   is_missing plain_runtime (by_leadership desc) bob \<and>
   client_sort plain_runtime (Some (by_leadership desc)) [ada, bob] = Inr [bob, ada] \<and>
   missing_first plain_runtime (by_leadership desc) [bob, ada]"
proof -
  have f: "field (by_leadership desc) \<notin> set simpleSortFields"
    by (simp add: by_leadership_def simpleSortFields_def)
  have a: "\<forall>c \<in> set [ada, bob].
      is_missing plain_runtime (by_leadership desc) c \<or> has_number plain_runtime (by_leadership desc) c"
    by (simp add: leadership_missing)
  from client_sort_missing_first[OF f a] obtain rs where
    rs: "client_sort plain_runtime (Some (by_leadership desc)) [ada, bob] =
        Inr (filter (is_missing plain_runtime (by_leadership desc)) [ada, bob] @ rs)"
      "mset rs = mset (filter (has_number plain_runtime (by_leadership desc)) [ada, bob])"
      "missing_first plain_runtime (by_leadership desc)
         (filter (is_missing plain_runtime (by_leadership desc)) [ada, bob] @ rs)"
    by blast
  from rs(2) have "rs = [ada]" by (simp add: leadership_missing)
  with rs f show ?thesis by (simp add: leadership_missing)
qed

text \<open>
  C3 as stated fails: sorted by \<open>scores.leadership\<close>, in ascending and in descending
  direction, Bob, who has no such score, stands before Ada, who has one.
\<close>

theorem client_sort_missing_last_counterexample:
  "resolved plain_runtime (by_leadership asc) ada = Inr (number 7) \<and>
   resolved plain_runtime (by_leadership asc) bob = Inr Undefined \<and>
   client_sort plain_runtime (Some (by_leadership asc)) [ada, bob] = Inr [bob, ada] \<and>
   \<not> missing_last plain_runtime (by_leadership asc) [bob, ada] \<and>
   client_sort plain_runtime (Some (by_leadership desc)) [ada, bob] = Inr [bob, ada] \<and>
   \<not> missing_last plain_runtime (by_leadership desc) [bob, ada]"
proof -
  have k: "compare_candidates plain_runtime (by_leadership d) ada bob = Inr 1" for d
    by (rule compare_number_missing) (simp_all add: leadership_missing)
  have s: "client_sort plain_runtime (Some (by_leadership d)) [ada, bob] = Inr [bob, ada]" for d
    by (simp add: client_sort_def by_leadership_def simpleSortFields_def k[unfolded by_leadership_def])
  have m: "\<not> missing_last plain_runtime (by_leadership d) [bob, ada]" for d
    by (simp add: missing_last_def leadership_missing ada_not_bob)
  show ?thesis
    by (simp add: resolved_ada_leadership resolved_bob_leadership s m)
qed

text \<open>
  C4 (as the code has it). The client-side sort returns a permutation of its input for every
  sort option, and the value of every candidate resolves without an exception, for every
  field string. A value that is not an object (a number, a string, a boolean, \<open>undefined\<close>)
  is left as it is by the remaining parts of the path; only \<open>undefined\<close> and \<open>null\<close> are
  replaced by the sentinel, every other value is compared as it is.
\<close>

theorem client_sort_total:
  "(\<exists>out. client_sort rt so cs = Inr out \<and> mset out = mset cs) \<and>
   (\<exists>v'. resolved rt s c = Inr v') \<and>
   (\<not> (truthy v \<and> typeof_object v) \<longrightarrow> resolve_field rt v parts = Inr v) \<and>
   (v \<noteq> Undefined \<and> v \<noteq> Null \<longrightarrow> or_sentinel d v = v) \<and>
   or_sentinel d Undefined = missing_sentinel d \<and>
   or_sentinel d Null = missing_sentinel d"
proof (intro conjI)
  show "\<exists>out. client_sort rt so cs = Inr out \<and> mset out = mset cs"
    by (rule client_sort_mset)
  show "\<exists>v'. resolved rt s c = Inr v'"
    unfolding resolved_def by (rule resolve_field_total)
  show "\<not> (truthy v \<and> typeof_object v) \<longrightarrow> resolve_field rt v parts = Inr v"
    using resolve_field_stays by blast
qed (simp_all add: or_sentinel_def)

text \<open>The path \<open>name.first\<close>, whose first part is a string.\<close>

theorem client_sort_total_witness:
  "(\<exists>out. client_sort plain_runtime (Some by_first_name) [ada, bob] = Inr out \<and>
          mset out = mset [ada, bob]) \<and>
   (\<exists>v'. resolved plain_runtime by_first_name ada = Inr v') \<and>
   resolve_field plain_runtime (Str ''Ada'') [''first''] = Inr (Str ''Ada'') \<and>
   or_sentinel asc (Str ''Ada'') = Str ''Ada''"
  using client_sort_total[of plain_runtime "Some by_first_name" "[ada, bob]" by_first_name ada
      "Str ''Ada''" "[''first'']" asc]
  by simp

lemma resolved_points:
  "resolved plain_runtime (by_score_points d) ada = Inr (number 8)"
  "resolved plain_runtime (by_score_points d) bob = Inr (number 6)"
  by (simp_all add: resolved_def by_score_points_def ada_def bob_def example_candidate_def
      candidate_obj_def optional_def scores_obj_def field_step_def plain_runtime_def number_def)

text \<open>
  C4 as stated fails: the path \<open>overallScore.points\<close> has a number at its first part; it
  resolves to that number, which is not the sentinel, and the sort orders by it.
\<close>

theorem malformed_path_counterexample:
  "resolved plain_runtime (by_score_points asc) ada = Inr (number 8) \<and>
   or_sentinel asc (number 8) \<noteq> missing_sentinel asc \<and>
   or_sentinel desc (number 8) \<noteq> missing_sentinel desc \<and>
   client_sort plain_runtime (Some (by_score_points asc)) [ada, bob] = Inr [bob, ada] \<and>
   client_sort plain_runtime (Some (by_score_points desc)) [bob, ada] = Inr [ada, bob]"
proof -
  have k1: "compare_candidates plain_runtime (by_score_points asc) ada bob = Inr 1"
    unfolding compare_candidates_keys[OF resolved_points(1) resolved_points(2)]
    by (simp add: by_score_points_def number_def or_sentinel_def js_lt_def js_gt_def)
  have k2: "compare_candidates plain_runtime (by_score_points desc) bob ada = Inr 1"
    unfolding compare_candidates_keys[OF resolved_points(2) resolved_points(1)]
    by (simp add: by_score_points_def number_def or_sentinel_def js_lt_def js_gt_def)
  have s1: "client_sort plain_runtime (Some (by_score_points asc)) [ada, bob] = Inr [bob, ada]"
    by (simp add: client_sort_def simpleSortFields_def k1[unfolded by_score_points_def]
        by_score_points_def)
  have s2: "client_sort plain_runtime (Some (by_score_points desc)) [bob, ada] = Inr [ada, bob]"
    by (simp add: client_sort_def simpleSortFields_def k2[unfolded by_score_points_def]
        by_score_points_def)
  show ?thesis
    by (simp add: resolved_points s1 s2 number_def or_sentinel_def missing_sentinel_def)
qed

section \<open>Properties of the analysis routes\<close>

lemma get_prop_defined:
  "r \<noteq> Undefined \<Longrightarrow> r \<noteq> Null \<Longrightarrow> \<exists>v. get_prop rt r k = Inr v"
  by (cases r) (auto split: option.splits)

text \<open>
  C5 (as the code has it). For every parsed answer other than \<open>undefined\<close> and \<open>null\<close>, both
  routes build the same result, and its \<open>suggestedScores\<close> is the answer's \<open>suggestedScores\<close>
  unchanged when that is truthy, and otherwise the default object with the four standard
  categories at 5.
\<close>

theorem validatedResult_suggestedScores:
  assumes "r \<noteq> Undefined" and "r \<noteq> Null"
  shows "\<exists>s out. get_prop rt r ''suggestedScores'' = Inr s \<and>
           openai_validatedResult rt r = Inr out \<and>
           gemini_validatedResult rt r = Inr out \<and>
           get_prop rt out ''suggestedScores'' =
             Inr (if truthy s then s else default_suggestedScores)"
proof -
  from get_prop_defined[OF assms] obtain a where a: "get_prop rt r ''summary'' = Inr a" by blast
  from get_prop_defined[OF assms] obtain b where b: "get_prop rt r ''extractedSkills'' = Inr b" by blast
  from get_prop_defined[OF assms] obtain c where c: "get_prop rt r ''extractedEducation'' = Inr c" by blast
  from get_prop_defined[OF assms] obtain d where d: "get_prop rt r ''extractedExperience'' = Inr d" by blast
  from get_prop_defined[OF assms] obtain s where s: "get_prop rt r ''suggestedScores'' = Inr s" by blast
  show ?thesis
    by (simp add: openai_validatedResult_def gemini_validatedResult_def bind_def a b c d s js_or_def)
qed

text \<open>An answer without suggested scores gets the default, whose categories are 5.\<close>

theorem validatedResult_suggestedScores_witness:
  "answer_without_scores \<noteq> Undefined \<and> answer_without_scores \<noteq> Null \<and>
   (\<exists>out. openai_validatedResult plain_runtime answer_without_scores = Inr out \<and>
      gemini_validatedResult plain_runtime answer_without_scores = Inr out \<and>
      get_prop plain_runtime out ''suggestedScores'' = Inr default_suggestedScores) \<and>
   get_prop plain_runtime default_suggestedScores ''communicationSkills'' = Inr (number 5)"
proof -
  have n: "answer_without_scores \<noteq> Undefined" "answer_without_scores \<noteq> Null"
    by (simp_all add: answer_without_scores_def)
  have s: "get_prop plain_runtime answer_without_scores ''suggestedScores'' = Inr Undefined"
    by (simp add: answer_without_scores_def plain_runtime_def)
  from validatedResult_suggestedScores[OF n, of plain_runtime] s
  have "\<exists>out. openai_validatedResult plain_runtime answer_without_scores = Inr out \<and>
      gemini_validatedResult plain_runtime answer_without_scores = Inr out \<and>
      get_prop plain_runtime out ''suggestedScores'' = Inr default_suggestedScores"
    by auto
  with n show ?thesis by (simp add: default_suggestedScores_def)
qed

text \<open>
  C5 as stated fails: suggested scores that hold only \<open>technicalSkills\<close> pass through both
  routes as they are; \<open>communicationSkills\<close> stays \<open>undefined\<close> and is not set to 5.
\<close>

theorem validatedResult_partial_scores_counterexample:
  "openai_validatedResult plain_runtime answer_with_partial_scores =
     Inr (Obj [(''summary'', Str ''A short summary''), (''extractedSkills'', Arr []),
               (''extractedEducation'', Arr []), (''extractedExperience'', Arr []),
               (''suggestedScores'', Obj [(''technicalSkills'', number 8)])]) \<and>
   gemini_validatedResult plain_runtime answer_with_partial_scores =
     Inr (Obj [(''summary'', Str ''A short summary''), (''extractedSkills'', Arr []),
               (''extractedEducation'', Arr []), (''extractedExperience'', Arr []),
               (''suggestedScores'', Obj [(''technicalSkills'', number 8)])]) \<and>
   get_prop plain_runtime (Obj [(''technicalSkills'', number 8)]) ''communicationSkills'' =
     Inr Undefined \<and>
   Undefined \<noteq> number 5"
  by (simp add: openai_validatedResult_def gemini_validatedResult_def bind_def js_or_def
      answer_with_partial_scores_def plain_runtime_def number_def)

section \<open>Properties of the filters and of the upload\<close>

lemma startsWith_prefix: "startsWith s k \<longleftrightarrow> prefix k s"
  by (induction s k rule: startsWith.induct) auto

lemma includes_str_sublist: "includes_str s k \<longleftrightarrow> sublist k s"
proof (induction s)
  case Nil
  show ?case by simp
next
  case (Cons c cs)
  show ?case
  proof (cases k)
    case Nil
    then show ?thesis by simp
  next
    case (Cons a as)
    with Cons.IH show ?thesis
      by (simp add: startsWith_prefix sublist_Cons_right)
  qed
qed

lemma searchableFields_nonempty:
  "set (searchableFields c) = {f \<in> set (search_fields c). f \<noteq> []}"
  by (auto simp: searchableFields_def candidate_fields_def search_fields_def present_def
      split: option.splits if_splits)

lemma matches_keyword_iff:
  assumes "k \<noteq> []"
  shows "matches_keyword k c \<longleftrightarrow> (\<exists>f \<in> set (search_fields c). sublist k (toLowerCase f))"
proof -
  have "\<not> sublist k (toLowerCase [])"
    using assms by (simp add: toLowerCase_def)
  then show ?thesis
    unfolding matches_keyword_def list_ex_iff searchableFields_nonempty includes_str_sublist
    by auto
qed





lemma put_document_cases:
  "put_document resume_type info ds = ds\<lparr>resume := Some info\<rparr>"
  "put_document coverLetter_type info ds = ds\<lparr>coverLetter := Some info\<rparr>"
  "put_document notes_type info ds = ds\<lparr>notes' := Some (concat (present (notes' ds)) @ [info])\<rparr>"
  "put_document transcripts_type info ds =
     ds\<lparr>transcripts := Some (concat (present (transcripts ds)) @ [info])\<rparr>"
  by (simp_all add: put_document_def present_def split: option.splits)

text \<open>
  C6. For a search term that is not empty, the search keeps exactly the candidates for
  which the lower-cased term is a substring of the lower-cased name, email, phone number,
  LinkedIn or GitHub link where present, or name of a note, in their input order.
\<close>

theorem search_filter_keeps:
  assumes "searchTerm fo = Some t" and "t \<noteq> []"
  shows "search_filter (Some fo) cs =
     filter (\<lambda>c. \<exists>f \<in> set (search_fields c). sublist (toLowerCase t) (toLowerCase f)) cs"
proof -
  have "toLowerCase t \<noteq> []" using assms(2) by (simp add: toLowerCase_def)
  then have "matches_keyword (toLowerCase t) =
      (\<lambda>c. \<exists>f \<in> set (search_fields c). sublist (toLowerCase t) (toLowerCase f))"
    by (intro ext) (rule matches_keyword_iff)
  then show ?thesis
    using assms by (simp add: search_filter_def)
qed

lemma lower_interview: "toLowerCase ''INTERVIEW'' = ''interview''"
  by code_simp

lemma note_matches:
  "(\<exists>f \<in> set (search_fields (with_documents ada)). sublist ''interview'' (toLowerCase f)) = True"
  "(\<exists>f \<in> set (search_fields bob). sublist ''interview'' (toLowerCase f)) = False"
  "(\<exists>f \<in> set [name ada, email ada]. sublist ''interview'' (toLowerCase f)) = False"
  unfolding includes_str_sublist[symmetric] list_ex_iff[symmetric]
  by code_simp+

text \<open>
  The term \<open>INTERVIEW\<close> keeps Ada, whose note is named \<open>Interview notes.txt\<close> and whose name
  and email do not match, and drops Bob.
\<close>

theorem search_filter_keeps_witness:
  "searchTerm (search_for ''INTERVIEW'') = Some ''INTERVIEW'' \<and> ''INTERVIEW'' \<noteq> [] \<and>
   search_filter (Some (search_for ''INTERVIEW'')) [with_documents ada, bob] = [with_documents ada] \<and>
   (\<exists>f \<in> set [name ada, email ada]. sublist ''interview'' (toLowerCase f)) = False"
proof -
  have t: "searchTerm (search_for ''INTERVIEW'') = Some ''INTERVIEW''"
    by (simp add: search_for_def)
  have n: "''INTERVIEW'' \<noteq> []" by simp
  from search_filter_keeps[OF t n, of "[with_documents ada, bob]"] t note_matches(3)
  show ?thesis
    by (simp add: lower_interview note_matches(1,2))
qed

text \<open>
  C7. The two score filters together keep exactly the candidates whose overall score is at
  least the minimum, when one is given, and at most the maximum, when one is given. With
  the bounds 70 and 89, of the scores 65, 70, 89, 90 the candidates with 70 and 89 remain.
\<close>

theorem score_bounds_inclusive:
  "maxScore_filter (Some fo) (minScore_filter (Some fo) cs) =
     filter (\<lambda>c. (case minScore fo of None \<Rightarrow> True | Some m \<Rightarrow> m \<le> overallScore c) \<and>
                 (case maxScore fo of None \<Rightarrow> True | Some m \<Rightarrow> overallScore c \<le> m)) cs \<and>
   getCandidates (\<lambda>q. Inr [scored 65, scored 70, scored 89, scored 90]) rt 1
       (Some (score_between 70 89)) None =
     Inr [scored 70, scored 89]"
proof
  show "maxScore_filter (Some fo) (minScore_filter (Some fo) cs) =
     filter (\<lambda>c. (case minScore fo of None \<Rightarrow> True | Some m \<Rightarrow> m \<le> overallScore c) \<and>
                 (case maxScore fo of None \<Rightarrow> True | Some m \<Rightarrow> overallScore c \<le> m)) cs"
    by (auto simp: maxScore_filter_def minScore_filter_def split: option.splits intro: filter_cong)
  have t: "to_candidate 1 (scored x) = scored x" for x
    by (simp add: to_candidate_def scored_def example_candidate_def)
  have o: "overallScore (scored x) = x" for x
    by (simp add: scored_def example_candidate_def)
  show "getCandidates (\<lambda>q. Inr [scored 65, scored 70, scored 89, scored 90]) rt 1
       (Some (score_between 70 89)) None = Inr [scored 70, scored 89]"
    by (simp add: getCandidates_def client_side_def client_sort_def maxScore_filter_def
        minScore_filter_def search_filter_def score_between_def t o)
qed


text \<open>
  C10. For a candidate in the store, an upload succeeds and changes that candidate's
  documents only: a resume or a cover letter is replaced by the new document, a note or a
  transcript is appended to the end of its list, and the other three fields stay as they
  were.
\<close>

theorem uploadCandidateDocument_documents:
  assumes "docs st cid = Some c"
  shows "\<exists>info st' ds'.
     uploadCandidateDocument rt env cid file t st = (Inr info, st') \<and>
     doc_name info = file_name file \<and>
     docs st' = (docs st)(cid \<mapsto> c\<lparr>documents := Some ds'\<rparr>) \<and>
     (let ds = (case documents c of None \<Rightarrow> empty_documents | Some d \<Rightarrow> d) in
        (t = resume_type \<longrightarrow>
           resume ds' = Some info \<and> coverLetter ds' = coverLetter ds \<and>
           notes' ds' = notes' ds \<and> transcripts ds' = transcripts ds) \<and>
        (t = coverLetter_type \<longrightarrow>
           coverLetter ds' = Some info \<and> resume ds' = resume ds \<and>
           notes' ds' = notes' ds \<and> transcripts ds' = transcripts ds) \<and>
        (t = notes_type \<longrightarrow>
           notes' ds' = Some (concat (present (notes' ds)) @ [info]) \<and> resume ds' = resume ds \<and>
           coverLetter ds' = coverLetter ds \<and> transcripts ds' = transcripts ds) \<and>
        (t = transcripts_type \<longrightarrow>
           transcripts ds' = Some (concat (present (transcripts ds)) @ [info]) \<and>
           resume ds' = resume ds \<and> coverLetter ds' = coverLetter ds \<and> notes' ds' = notes' ds))"
proof -
  define ds where "ds = (case documents c of None \<Rightarrow> empty_documents | Some d \<Rightarrow> d)"
  obtain info st' where r: "uploadCandidateDocument rt env cid file t st = (Inr info, st')"
    using assms by (auto simp: uploadCandidateDocument_def Let_def)
  have n: "doc_name info = file_name file"
    using r assms by (auto simp: uploadCandidateDocument_def Let_def)
  have d: "docs st' = (docs st)(cid \<mapsto> c\<lparr>documents := Some (put_document t info ds)\<rparr>)"
    using r assms unfolding ds_def by (auto simp: uploadCandidateDocument_def Let_def)
  have p: "(t = resume_type \<longrightarrow>
           resume (put_document t info ds) = Some info \<and>
           coverLetter (put_document t info ds) = coverLetter ds \<and>
           notes' (put_document t info ds) = notes' ds \<and>
           transcripts (put_document t info ds) = transcripts ds) \<and>
        (t = coverLetter_type \<longrightarrow>
           coverLetter (put_document t info ds) = Some info \<and>
           resume (put_document t info ds) = resume ds \<and>
           notes' (put_document t info ds) = notes' ds \<and>
           transcripts (put_document t info ds) = transcripts ds) \<and>
        (t = notes_type \<longrightarrow>
           notes' (put_document t info ds) = Some (concat (present (notes' ds)) @ [info]) \<and>
           resume (put_document t info ds) = resume ds \<and>
           coverLetter (put_document t info ds) = coverLetter ds \<and>
           transcripts (put_document t info ds) = transcripts ds) \<and>
        (t = transcripts_type \<longrightarrow>
           transcripts (put_document t info ds) = Some (concat (present (transcripts ds)) @ [info]) \<and>
           resume (put_document t info ds) = resume ds \<and>
           coverLetter (put_document t info ds) = coverLetter ds \<and>
           notes' (put_document t info ds) = notes' ds)"
    by (simp add: put_document_cases)
  show ?thesis
    unfolding ds_def[symmetric] Let_def
    using r n d p by blast
qed

text \<open>
  Ada has a resume and one note; a second resume takes the place of the first, and a second
  note follows the first.
\<close>

theorem uploadCandidateDocument_documents_witness:
  "docs example_store ''Ada'' = Some (with_documents ada) \<and>
   (\<exists>info st' ds'.
      uploadCandidateDocument plain_runtime example_env ''Ada'' example_file resume_type
        example_store = (Inr info, st') \<and>
      docs st' ''Ada'' = Some (with_documents ada\<lparr>documents := Some ds'\<rparr>) \<and>
      resume ds' = Some info \<and> doc_name info = ''cv.final.pdf'' \<and>
      notes' ds' = Some [example_note]) \<and>
   (\<exists>info st' ds'.
      uploadCandidateDocument plain_runtime example_env ''Ada'' example_file notes_type
        example_store = (Inr info, st') \<and>
      docs st' ''Ada'' = Some (with_documents ada\<lparr>documents := Some ds'\<rparr>) \<and>
      notes' ds' = Some [example_note, info] \<and> resume ds' = Some example_resume)"
proof -
  have d: "docs example_store ''Ada'' = Some (with_documents ada)"
    by (simp add: example_store_def)
  have e: "documents (with_documents ada) = Some example_documents"
    by (simp add: with_documents_def)
  from uploadCandidateDocument_documents[OF d, of plain_runtime example_env example_file
      resume_type]
  obtain info st' ds' where r:
    "uploadCandidateDocument plain_runtime example_env ''Ada'' example_file resume_type
       example_store = (Inr info, st')"
    "doc_name info = file_name example_file"
    "docs st' = (docs example_store)(''Ada'' \<mapsto> with_documents ada\<lparr>documents := Some ds'\<rparr>)"
    "resume ds' = Some info" "notes' ds' = notes' example_documents"
    by (auto simp: e Let_def)
  from uploadCandidateDocument_documents[OF d, of plain_runtime example_env example_file
      notes_type]
  obtain info2 st2 ds2 where n:
    "uploadCandidateDocument plain_runtime example_env ''Ada'' example_file notes_type
       example_store = (Inr info2, st2)"
    "docs st2 = (docs example_store)(''Ada'' \<mapsto> with_documents ada\<lparr>documents := Some ds2\<rparr>)"
    "notes' ds2 = Some (concat (present (notes' example_documents)) @ [info2])"
    "resume ds2 = resume example_documents"
    by (auto simp: e Let_def)
  have "\<exists>info st' ds'.
      uploadCandidateDocument plain_runtime example_env ''Ada'' example_file resume_type
        example_store = (Inr info, st') \<and>
      docs st' ''Ada'' = Some (with_documents ada\<lparr>documents := Some ds'\<rparr>) \<and>
      resume ds' = Some info \<and> doc_name info = ''cv.final.pdf'' \<and>
      notes' ds' = Some [example_note]"
    using r by (intro exI[of _ info] exI[of _ st'] exI[of _ ds'])
      (simp add: example_file_def example_documents_def)
  moreover have "\<exists>info st' ds'.
      uploadCandidateDocument plain_runtime example_env ''Ada'' example_file notes_type
        example_store = (Inr info, st') \<and>
      docs st' ''Ada'' = Some (with_documents ada\<lparr>documents := Some ds'\<rparr>) \<and>
      notes' ds' = Some [example_note, info] \<and> resume ds' = Some example_resume"
    using n by (intro exI[of _ info2] exI[of _ st2] exI[of _ ds2])
      (simp add: example_documents_def present_def)
  ultimately show ?thesis using d by blast
qed

end
